theory Spec2Isabelle
  imports Main "HOL-Library.Sublist"
begin

section \<open>Data model of \<open>buildBundle.ts\<close>\<close>

text \<open>
  Modelled from the spec: \<open>bundleCommandLineArgs.ts\<close> (the declaration of
  \<open>CommandLineArgs\<close>) is imported by \<open>buildBundle.ts\<close> but is not part of the
  sources at hand; the fields are those of the data model's \<open>CommandArgs\<close>. An optional
  field is an \<open>option\<close>, \<open>None\<close> standing for \<open>undefined\<close>.
\<close>

record CommandLineArgs =
  platform :: string
  entryFile :: string
  dev :: bool
  minify :: "bool option"
  sourcemapOutput :: "string option"
  sourcemapUseAbsolutePath :: bool
  bundleOutput :: string
  assetsDest :: "string option"
  assetCatalogDest :: "string option"
  maxWorkers :: "int option"
  resetCache :: bool
  config :: "string option"
  unstableTransformProfile :: "string option"

text \<open>
  \<open>ConfigT\<close> comes from \<open>metro-config\<close>; the function reads only
  \<open>config.resolver.platforms\<close>.
\<close>

record ResolverConfigT =
  platforms :: "string list"

record ConfigT =
  resolver :: ResolverConfigT

text \<open>
  \<open>interface RequestOptions\<close> (lines 22-29). The fields that share a name with a field
  of \<open>CommandLineArgs\<close> carry a prime.
\<close>

record RequestOptions =
  entryFile' :: string
  sourceMapUrl :: "string option"
  dev' :: bool
  minify' :: bool
  platform' :: string
  unstable_transformProfile :: "string option"

text \<open>The literal \<open>{recursive: true, mode: 0o755}\<close> handed to \<open>fs.mkdirSync\<close>.\<close>

record MkdirOptions =
  recursive :: bool
  mode :: nat

subsection \<open>Values, thrown values and objects\<close>

text \<open>
  The server session, the bundle, the asset list and the result of \<open>saveAssets\<close> are
  opaque to this function: they are values of a type \<open>'v\<close> that it only hands on. What
  a call throws is either an \<open>Error\<close> with its message or any other value.
\<close>

datatype 'v thrown = Error string | Thrown 'v

type_synonym 'v outcome = "'v thrown + 'v"

text \<open>
  The options object handed to \<open>server.getAssets\<close> is built with object spread, so
  it is modelled as a JavaScript object: a finite map from property names to values. A
  property whose value is \<open>undefined\<close> is still an own property and is copied by a
  spread.
\<close>

datatype 'v jsvalue = JSUndefined | JSBoolean bool | JSString string | JSOther 'v

type_synonym 'v object = "string \<rightharpoonup> 'v jsvalue"

definition optionalString :: "string option \<Rightarrow> 'v jsvalue" where
  "optionalString x = (case x of None \<Rightarrow> JSUndefined | Some s \<Rightarrow> JSString s)"

text \<open>The own properties of a \<open>RequestOptions\<close> object literal (lines 82-89).\<close>

definition properties :: "RequestOptions \<Rightarrow> 'v object" where
  "properties r =
     [''entryFile'' \<mapsto> JSString (entryFile' r),
      ''sourceMapUrl'' \<mapsto> optionalString (sourceMapUrl r),
      ''dev'' \<mapsto> JSBoolean (dev' r),
      ''minify'' \<mapsto> JSBoolean (minify' r),
      ''platform'' \<mapsto> JSString (platform' r),
      ''unstable_transformProfile'' \<mapsto> optionalString (unstable_transformProfile r)]"

subsection \<open>The process and the calls it records\<close>

text \<open>
  Every call the function issues is recorded, in order, with its arguments and, for the
  calls that may throw, with what came back (\<open>Inl\<close> what was thrown, \<open>Inr\<close> what was
  returned).
\<close>

datatype 'v event =
    LoggerError string
  | LoggerInfo string
  | EnvAssign string string
  | NewServer ConfigT "'v outcome"
  | OutputBuild 'v RequestOptions "'v outcome"
  | MkdirSync string MkdirOptions "'v outcome"
  | OutputSave 'v CommandLineArgs "'v outcome"
  | GetAssets 'v "'v object" "'v outcome"
  | SaveAssets 'v string "string option" "string option" "'v outcome"
  | ServerEnd 'v "'v outcome"

text \<open>
  The state the function runs in: \<open>process.env\<close>, the calls recorded so far (oldest
  first), and the world \<open>'w\<close> that the collaborators read and change (file system,
  engine caches). \<open>process.env\<close> is kept apart from that world: what is stated about
  it is what this function does to it, the collaborators being taken not to write it.
\<close>

record ('v, 'w) process =
  env :: "string \<rightharpoonup> string"
  events :: "'v event list"
  world :: 'w

type_synonym ('v, 'w) effect = "'w \<Rightarrow> 'v outcome \<times> 'w"

text \<open>
  The \<open>output\<close> parameter (\<open>typeof outputBundle\<close>): \<open>build(server, requestOpts)\<close>
  and \<open>save(bundle, args, log)\<close>. The third argument of \<open>save\<close> is always
  \<open>logger.info\<close>; what \<open>save\<close> logs is part of its own effect on the world.
\<close>

record ('v, 'w) outputBundle =
  build :: "'v \<Rightarrow> RequestOptions \<Rightarrow> ('v, 'w) effect"
  save :: "'v \<Rightarrow> CommandLineArgs \<Rightarrow> ('v, 'w) effect"

text \<open>
  What \<open>buildBundle.ts\<close> imports and calls: Metro's \<open>Server\<close> (constructor,
  \<open>getAssets\<close>, \<open>end\<close>, \<open>DEFAULT_BUNDLE_OPTIONS\<close>), \<open>fs.mkdirSync\<close>,
  \<open>path.basename\<close>, \<open>path.dirname\<close>, \<open>chalk.bold\<close> and \<open>saveAssets\<close>. None of
  them is defined in this file, so each is a parameter; the calls with an effect may throw.
\<close>

record ('v, 'w) modules =
  Server_new :: "ConfigT \<Rightarrow> ('v, 'w) effect"
  Server_getAssets :: "'v \<Rightarrow> 'v object \<Rightarrow> ('v, 'w) effect"
  Server_end :: "'v \<Rightarrow> ('v, 'w) effect"
  Server_DEFAULT_BUNDLE_OPTIONS :: "'v object"
  fs_mkdirSync :: "string \<Rightarrow> MkdirOptions \<Rightarrow> ('v, 'w) effect"
  path_basename :: "string \<Rightarrow> string"
  path_dirname :: "string \<Rightarrow> string"
  chalk_bold :: "string \<Rightarrow> string"
  saveAssets :: "'v \<Rightarrow> string \<Rightarrow> string option \<Rightarrow> string option \<Rightarrow> ('v, 'w) effect"

section \<open>Control flow: sequencing, \<open>throw\<close>, \<open>try\<close>/\<open>finally\<close>\<close>

type_synonym ('v, 'w, 'a) action =
  "('v, 'w) process \<Rightarrow> ('v thrown + 'a) \<times> ('v, 'w) process"

text \<open>Statement sequencing: a throw in the first statement skips the rest.\<close>

definition andThen ::
  "('v, 'w, 'a) action \<Rightarrow> ('a \<Rightarrow> ('v, 'w, 'b) action) \<Rightarrow> ('v, 'w, 'b) action" where
  "andThen f g s = (case f s of (Inl e, s') \<Rightarrow> (Inl e, s') | (Inr x, s') \<Rightarrow> g x s')"

definition throw :: "'v thrown \<Rightarrow> ('v, 'w, 'a) action" where
  "throw e s = (Inl e, s)"

text \<open>
  \<open>try { body } finally { cleanup }\<close>: the cleanup runs whatever the body did; the
  completion of the body (its value or what it threw) is the completion of the whole
  statement, unless the cleanup itself throws.
\<close>

definition tryFinally ::
  "('v, 'w, 'a) action \<Rightarrow> ('v, 'w, 'b) action \<Rightarrow> ('v, 'w, 'a) action" where
  "tryFinally body cleanup s =
     (case body s of
        (r, s') \<Rightarrow>
          (case cleanup s' of
             (Inl e, s'') \<Rightarrow> (Inl e, s'')
           | (Inr _, s'') \<Rightarrow> (r, s'')))"

text \<open>A call to a collaborator: it acts on the world, and the call is recorded.\<close>

definition call ::
  "('v outcome \<Rightarrow> 'v event) \<Rightarrow> ('v, 'w) effect \<Rightarrow> ('v, 'w, 'v) action" where
  "call ev f s =
     (case f (world s) of
        (r, w) \<Rightarrow> (r, s\<lparr>events := events s @ [ev r], world := w\<rparr>))"

text \<open>
  \<open>logger.error\<close>, \<open>logger.info\<close> and the assignment to \<open>process.env\<close>
  do not throw: they are recorded and return.
\<close>

definition logger_error :: "string \<Rightarrow> ('v, 'w, unit) action" where
  "logger_error msg s = (Inr (), s\<lparr>events := events s @ [LoggerError msg]\<rparr>)"

definition logger_info :: "string \<Rightarrow> ('v, 'w, unit) action" where
  "logger_info msg s = (Inr (), s\<lparr>events := events s @ [LoggerInfo msg]\<rparr>)"

text \<open>\<open>process.env[name] = value\<close>.\<close>

definition envAssign :: "string \<Rightarrow> string \<Rightarrow> ('v, 'w, unit) action" where
  "envAssign name val s =
     (Inr (), s\<lparr>env := (env s)(name \<mapsto> val), events := events s @ [EnvAssign name val]\<rparr>)"

section \<open>\<open>buildBundleWithConfig\<close>\<close>

text \<open>\<open>Array.prototype.indexOf\<close>: the first index of the element, or \<open>-1\<close>.\<close>

fun indexOf :: "'a list \<Rightarrow> 'a \<Rightarrow> int" where
  "indexOf [] x = -1"
| "indexOf (y # ys) x =
     (if y = x then 0 else (let i = indexOf ys x in if i = -1 then -1 else i + 1))"

text \<open>\<open>Array.prototype.join\<close>.\<close>

fun join :: "string \<Rightarrow> string list \<Rightarrow> string" where
  "join sep [] = []"
| "join sep [x] = x"
| "join sep (x # y # ys) = x @ sep @ join sep (y # ys)"

text \<open>The two diagnostics of lines 56-68. A string is truthy when it is not empty.\<close>

definition invalidPlatformMessage :: "(string \<Rightarrow> string) \<Rightarrow> string \<Rightarrow> string" where
  \<open>invalidPlatformMessage bold p =
     ''Invalid platform '' @ (if p \<noteq> [] then ''"'' @ bold p @ ''" '' else []) @ ''selected.''\<close>

definition availablePlatformsMessage :: "(string \<Rightarrow> string) \<Rightarrow> string list \<Rightarrow> string" where
  \<open>availablePlatformsMessage bold ps =
     ''Available platforms are: '' @ join '', '' (map (\<lambda>x. ''"'' @ bold x @ ''"'') ps)
       @ ''. If you are trying to bundle for an out-of-tree platform, it may not be installed.''\<close>

text \<open>
  Lines 77-89: \<open>sourceMapUrl\<close> and the \<open>requestOpts\<close> literal. \<open>sourceMapUrl\<close> is
  truthy when it is defined and not empty.
\<close>

definition requestOpts :: "('v, 'w) modules \<Rightarrow> CommandLineArgs \<Rightarrow> RequestOptions" where
  "requestOpts m args =
     (let sourceMapUrl0 = sourcemapOutput args;
          sourceMapUrl1 =
            (case sourceMapUrl0 of
               Some u \<Rightarrow>
                 if u \<noteq> [] \<and> \<not> sourcemapUseAbsolutePath args
                 then Some (path_basename m u) else sourceMapUrl0
             | None \<Rightarrow> sourceMapUrl0)
      in \<lparr>entryFile' = entryFile args,
          sourceMapUrl = sourceMapUrl1,
          dev' = dev args,
          minify' = (case minify args of Some b \<Rightarrow> b | None \<Rightarrow> \<not> dev args),
          platform' = platform args,
          unstable_transformProfile = unstableTransformProfile args\<rparr>)"

text \<open>Line 96. The mode \<open>0o755\<close> is octal: \<open>7 * 64 + 5 * 8 + 5 = 493\<close>.\<close>

definition mkdirOptions :: MkdirOptions where
  "mkdirOptions = \<lparr>recursive = True, mode = 7 * 64 + 5 * 8 + 5\<rparr>"

text \<open>
  Lines 102-106: \<open>{...Server.DEFAULT_BUNDLE_OPTIONS, ...requestOpts, bundleType: 'todo'}\<close>.
  A later spread or property overrides an earlier one.
\<close>

definition assetOptions :: "('v, 'w) modules \<Rightarrow> RequestOptions \<Rightarrow> 'v object" where
  "assetOptions m r =
     Map.empty ++ Server_DEFAULT_BUNDLE_OPTIONS m ++ properties r
       ++ [''bundleType'' \<mapsto> JSString ''todo'']"

text \<open>The value assigned to \<open>process.env.NODE_ENV\<close> (line 75).\<close>

definition buildMode :: "CommandLineArgs \<Rightarrow> string" where
  "buildMode args = (if dev args then ''development'' else ''production'')"

text \<open>The body of the \<open>try\<close> block (lines 93-114).\<close>

definition tryBlock ::
  "('v, 'w) modules \<Rightarrow> CommandLineArgs \<Rightarrow> ('v, 'w) outputBundle \<Rightarrow> RequestOptions \<Rightarrow> 'v
     \<Rightarrow> ('v, 'w, 'v) action" where
  "tryBlock m args output ropts server =
     andThen (call (OutputBuild server ropts) (build output server ropts)) (\<lambda>bundle.
     andThen (call (MkdirSync (path_dirname m (bundleOutput args)) mkdirOptions)
                (fs_mkdirSync m (path_dirname m (bundleOutput args)) mkdirOptions)) (\<lambda>_.
     andThen (call (OutputSave bundle args) (save output bundle args)) (\<lambda>_.
     andThen (call (GetAssets server (assetOptions m ropts))
                (Server_getAssets m server (assetOptions m ropts))) (\<lambda>outputAssets.
     call (SaveAssets outputAssets (platform args) (assetsDest args) (assetCatalogDest args))
       (saveAssets m outputAssets (platform args) (assetsDest args) (assetCatalogDest args))))))"

definition buildBundleWithConfig ::
  "('v, 'w) modules \<Rightarrow> CommandLineArgs \<Rightarrow> ConfigT \<Rightarrow> ('v, 'w) outputBundle
     \<Rightarrow> ('v, 'w, 'v) action" where
  "buildBundleWithConfig m args cfg output =
     (if indexOf (platforms (resolver cfg)) (platform args) = -1 then
        andThen (logger_error (invalidPlatformMessage (chalk_bold m) (platform args))) (\<lambda>_.
        andThen (logger_info (availablePlatformsMessage (chalk_bold m) (platforms (resolver cfg)))) (\<lambda>_.
        throw (Error ''Bundling failed'')))
      else
        andThen (envAssign ''NODE_ENV'' (buildMode args)) (\<lambda>_.
        andThen (call (NewServer cfg) (Server_new m cfg)) (\<lambda>server.
        tryFinally (tryBlock m args output (requestOpts m args) server)
          (call (ServerEnd server) (Server_end m server)))))"

text \<open>The calls one invocation adds to the record.\<close>

definition emitted ::
  "('v, 'w) modules \<Rightarrow> CommandLineArgs \<Rightarrow> ConfigT \<Rightarrow> ('v, 'w) outputBundle
     \<Rightarrow> ('v, 'w) process \<Rightarrow> 'v event list" where
  "emitted m args cfg output s =
     drop (length (events s)) (events (snd (buildBundleWithConfig m args cfg output s)))"

subsection \<open>Reading the record of calls\<close>

fun isEnvAssign :: "'v event \<Rightarrow> bool" where
  "isEnvAssign (EnvAssign _ _) = True"
| "isEnvAssign _ = False"

fun isMkdirSync :: "'v event \<Rightarrow> bool" where
  "isMkdirSync (MkdirSync _ _ _) = True"
| "isMkdirSync _ = False"

fun isOutputSave :: "'v event \<Rightarrow> bool" where
  "isOutputSave (OutputSave _ _ _) = True"
| "isOutputSave _ = False"

fun isGetAssets :: "'v event \<Rightarrow> bool" where
  "isGetAssets (GetAssets _ _ _) = True"
| "isGetAssets _ = False"

fun isServerEnd :: "'v event \<Rightarrow> bool" where
  "isServerEnd (ServerEnd _ _) = True"
| "isServerEnd _ = False"

text \<open>A call to the engine, the output writer, the file system or the asset extractor.\<close>

fun isCall :: "'v event \<Rightarrow> bool" where
  "isCall (LoggerError _) = False"
| "isCall (LoggerInfo _) = False"
| "isCall (EnvAssign _ _) = False"
| "isCall _ = True"

text \<open>What a step of the \<open>try\<close> block threw, if the event is such a step and it threw.\<close>

fun thrownBy :: "'v event \<Rightarrow> 'v thrown option" where
  "thrownBy (OutputBuild _ _ (Inl e)) = Some e"
| "thrownBy (MkdirSync _ _ (Inl e)) = Some e"
| "thrownBy (OutputSave _ _ (Inl e)) = Some e"
| "thrownBy (GetAssets _ _ (Inl e)) = Some e"
| "thrownBy (SaveAssets _ _ _ _ (Inl e)) = Some e"
| "thrownBy _ = None"

subsection \<open>A concrete run\<close>

text \<open>
  Collaborators for running the function on concrete inputs: values are numbers, the
  world is the list of directories created so far. \<open>lastSegment\<close> and
  \<open>parentPath\<close> stand for \<open>path.basename\<close> and \<open>path.dirname\<close> on the
  paths of the runs below only. They cut a path at its last slash, which is what the two
  do on a POSIX path of the form \<open>/dir/.../name\<close>: at least one directory, no empty
  segment, no slash at the end. They differ elsewhere: for a bare file name
  \<open>path.dirname\<close> is \<open>'.'\<close> where \<open>parentPath\<close> is empty, for \<open>/name\<close>
  it is \<open>'/'\<close>, and \<open>path.basename\<close> drops slashes at the end where
  \<open>lastSegment\<close> is then empty.
\<close>

definition lastSegment :: "string \<Rightarrow> string" where
  "lastSegment p = rev (takeWhile (\<lambda>c. c \<noteq> CHR ''/'') (rev p))"

definition parentPath :: "string \<Rightarrow> string" where
  "parentPath p = rev (drop 1 (dropWhile (\<lambda>c. c \<noteq> CHR ''/'') (rev p)))"

definition exampleModules :: "(nat, string list) modules" where
  "exampleModules =
     \<lparr>Server_new = (\<lambda>cfg w. (Inr 1, w)),
      Server_getAssets = (\<lambda>server opts w. (Inr 3, w)),
      Server_end = (\<lambda>server w. (Inr 0, w)),
      Server_DEFAULT_BUNDLE_OPTIONS =
        [''dev'' \<mapsto> JSBoolean True, ''minify'' \<mapsto> JSBoolean False,
         ''runModule'' \<mapsto> JSBoolean True, ''sourceMapUrl'' \<mapsto> JSOther 0],
      fs_mkdirSync = (\<lambda>p opts w. (Inr 0, p # w)),
      path_basename = lastSegment,
      path_dirname = parentPath,
      chalk_bold = (\<lambda>x. x),
      saveAssets = (\<lambda>assets p dest catalogDest w. (Inr 4, w))\<rparr>"

definition exampleOutput :: "(nat, string list) outputBundle" where
  "exampleOutput =
     \<lparr>build = (\<lambda>server opts w. (Inr 2, w)),
      save = (\<lambda>b args w. (Inr 0, w))\<rparr>"

text \<open>An output writer whose \<open>build\<close> throws, and one whose \<open>save\<close> throws.\<close>

definition buildThrows :: "(nat, string list) outputBundle" where
  "buildThrows =
     \<lparr>build = (\<lambda>server opts w. (Inl (Error ''Unable to resolve module''), w)),
      save = (\<lambda>b args w. (Inr 0, w))\<rparr>"

definition saveThrows :: "(nat, string list) outputBundle" where
  "saveThrows =
     \<lparr>build = (\<lambda>server opts w. (Inr 2, w)),
      save = (\<lambda>b args w. (Inl (Error ''EACCES''), w))\<rparr>"

text \<open>The same collaborators, with a \<open>server.end\<close> that throws.\<close>

definition endThrows :: "(nat, string list) modules" where
  "endThrows =
     exampleModules\<lparr>Server_end := (\<lambda>server w. (Inl (Error ''end failed''), w))\<rparr>"

definition exampleConfig :: ConfigT where
  "exampleConfig = \<lparr>resolver = \<lparr>platforms = [''ios'', ''android'']\<rparr>\<rparr>"

definition exampleArgs :: CommandLineArgs where
  "exampleArgs =
     \<lparr>platform = ''ios'', entryFile = ''index.js'', dev = True, minify = None,
      sourcemapOutput = Some ''/abs/out/bundle.map'', sourcemapUseAbsolutePath = False,
      bundleOutput = ''/abs/out/main.jsbundle'', assetsDest = Some ''/abs/out/assets'',
      assetCatalogDest = None, maxWorkers = None, resetCache = False, config = None,
      unstableTransformProfile = Some ''default''\<rparr>"

text \<open>The same arguments with a platform the configuration does not list.\<close>

definition windowsArgs :: CommandLineArgs where
  "windowsArgs = exampleArgs\<lparr>platform := ''windows''\<rparr>"

definition exampleProcess :: "(nat, string list) process" where
  "exampleProcess = \<lparr>env = Map.empty, events = [], world = []\<rparr>"

section \<open>Properties\<close>

subsection \<open>The shape of a run\<close>

text \<open>\<open>indexOf(x) === -1\<close> says that \<open>x\<close> is not an element.\<close>

lemma indexOf_ge: "indexOf xs x \<noteq> -1 \<Longrightarrow> 0 \<le> indexOf xs x"
  by (induction xs) (auto simp: Let_def split: if_splits)

lemma indexOf_absent: "indexOf xs x = -1 \<longleftrightarrow> x \<notin> set xs"
proof (induction xs)
  case Nil
  show ?case by simp
next
  case (Cons y ys)
  show ?case
  proof (cases "y = x")
    case True
    then show ?thesis by simp
  next
    case False
    have "indexOf ys x \<noteq> -1 \<Longrightarrow> indexOf ys x + 1 \<noteq> -1"
      using indexOf_ge [of ys x] by arith
    with False Cons show ?thesis by (auto simp: Let_def)
  qed
qed


text \<open>The paths through the \<open>try\<close> block, by the first step that throws.\<close>

lemma tryBlock_cases:
  fixes m :: "('v, 'w) modules"
  obtains
    (in_build) e where
      "fst (tryBlock m args output ropts server s) = Inl e"
      "events (snd (tryBlock m args output ropts server s)) = events s @
         [OutputBuild server ropts (Inl e)]"
  | (in_mkdirSync) b e where
      "fst (tryBlock m args output ropts server s) = Inl e"
      "events (snd (tryBlock m args output ropts server s)) = events s @
         [OutputBuild server ropts (Inr b),
          MkdirSync (path_dirname m (bundleOutput args)) mkdirOptions (Inl e)]"
  | (in_save) b d e where
      "fst (tryBlock m args output ropts server s) = Inl e"
      "events (snd (tryBlock m args output ropts server s)) = events s @
         [OutputBuild server ropts (Inr b),
          MkdirSync (path_dirname m (bundleOutput args)) mkdirOptions (Inr d),
          OutputSave b args (Inl e)]"
  | (in_getAssets) b d u e where
      "fst (tryBlock m args output ropts server s) = Inl e"
      "events (snd (tryBlock m args output ropts server s)) = events s @
         [OutputBuild server ropts (Inr b),
          MkdirSync (path_dirname m (bundleOutput args)) mkdirOptions (Inr d),
          OutputSave b args (Inr u),
          GetAssets server (assetOptions m ropts) (Inl e)]"
  | (in_saveAssets) b d u assets e where
      "fst (tryBlock m args output ropts server s) = Inl e"
      "events (snd (tryBlock m args output ropts server s)) = events s @
         [OutputBuild server ropts (Inr b),
          MkdirSync (path_dirname m (bundleOutput args)) mkdirOptions (Inr d),
          OutputSave b args (Inr u),
          GetAssets server (assetOptions m ropts) (Inr assets),
          SaveAssets assets (platform args) (assetsDest args) (assetCatalogDest args) (Inl e)]"
  | (body_completes) b d u assets result where
      "fst (tryBlock m args output ropts server s) = Inr result"
      "events (snd (tryBlock m args output ropts server s)) = events s @
         [OutputBuild server ropts (Inr b),
          MkdirSync (path_dirname m (bundleOutput args)) mkdirOptions (Inr d),
          OutputSave b args (Inr u),
          GetAssets server (assetOptions m ropts) (Inr assets),
          SaveAssets assets (platform args) (assetsDest args) (assetCatalogDest args) (Inr result)]"
proof -
  obtain r0 w0 where c0: "build output server ropts (world s) = (r0, w0)"
    by (metis surj_pair)
  show thesis
  proof (cases r0)
    case (Inl e)
    show thesis
      by (rule in_build) (simp_all add: tryBlock_def andThen_def call_def c0 Inl)
  next
    case (Inr b)
    note c0 = c0 [unfolded Inr]
    obtain r1 w1 where c1: "fs_mkdirSync m (path_dirname m (bundleOutput args)) mkdirOptions (w0) = (r1, w1)"
      by (metis surj_pair)
    show thesis
    proof (cases r1)
      case (Inl e)
      show thesis
        by (rule in_mkdirSync) (simp_all add: tryBlock_def andThen_def call_def c0 c1 Inl)
    next
      case (Inr d)
      note c1 = c1 [unfolded Inr]
      obtain r2 w2 where c2: "save output b args (w1) = (r2, w2)"
        by (metis surj_pair)
      show thesis
      proof (cases r2)
        case (Inl e)
        show thesis
          by (rule in_save) (simp_all add: tryBlock_def andThen_def call_def c0 c1 c2 Inl)
      next
        case (Inr u)
        note c2 = c2 [unfolded Inr]
        obtain r3 w3 where c3: "Server_getAssets m server (assetOptions m ropts) (w2) = (r3, w3)"
          by (metis surj_pair)
        show thesis
        proof (cases r3)
          case (Inl e)
          show thesis
            by (rule in_getAssets) (simp_all add: tryBlock_def andThen_def call_def c0 c1 c2 c3 Inl)
        next
          case (Inr assets)
          note c3 = c3 [unfolded Inr]
          obtain r4 w4 where c4: "saveAssets m assets (platform args) (assetsDest args) (assetCatalogDest args) (w3) = (r4, w4)"
            by (metis surj_pair)
          show thesis
          proof (cases r4)
            case (Inl e)
            show thesis
              by (rule in_saveAssets) (simp_all add: tryBlock_def andThen_def call_def c0 c1 c2 c3 c4 Inl)
          next
            case (Inr result)
            show thesis
              by (rule body_completes) (simp_all add: tryBlock_def andThen_def call_def c0 c1 c2 c3 c4 Inr)
          qed
        qed
      qed
    qed
  qed
qed

text \<open>The run when the platform is not in the list: two log calls and the throw.\<close>

lemma invalid_run:
  assumes "platform args \<notin> set (platforms (resolver cfg))"
  shows "buildBundleWithConfig m args cfg output s =
           (Inl (Error ''Bundling failed''),
            s\<lparr>events := events s @
               [LoggerError (invalidPlatformMessage (chalk_bold m) (platform args)),
                LoggerInfo (availablePlatformsMessage (chalk_bold m) (platforms (resolver cfg)))]\<rparr>)"
  using assms
  by (simp add: buildBundleWithConfig_def indexOf_absent andThen_def logger_error_def
      logger_info_def throw_def)

text \<open>
  The runs when the platform is in the list: the constructor throws, or one of the five
  steps of the \<open>try\<close> block throws, or all of them return; from the constructor's
  return on, \<open>server.end()\<close> comes last.
\<close>

lemma valid_run_cases:
  fixes m :: "('v, 'w) modules"
  assumes valid: "platform args \<in> set (platforms (resolver cfg))"
  obtains
    (constructor_throws) e where
      "fst (buildBundleWithConfig m args cfg output s) = Inl e"
      "emitted m args cfg output s =
         [EnvAssign ''NODE_ENV'' (buildMode args),
          NewServer cfg (Inl e)]"
  | (build_throws) server e c where
      "fst (buildBundleWithConfig m args cfg output s) =
         (case c of Inl e' \<Rightarrow> Inl e' | Inr _ \<Rightarrow> Inl e)"
      "emitted m args cfg output s =
         [EnvAssign ''NODE_ENV'' (buildMode args),
          NewServer cfg (Inr server),
          OutputBuild server (requestOpts m args) (Inl e),
          ServerEnd server c]"
  | (mkdirSync_throws) server b e c where
      "fst (buildBundleWithConfig m args cfg output s) =
         (case c of Inl e' \<Rightarrow> Inl e' | Inr _ \<Rightarrow> Inl e)"
      "emitted m args cfg output s =
         [EnvAssign ''NODE_ENV'' (buildMode args),
          NewServer cfg (Inr server),
          OutputBuild server (requestOpts m args) (Inr b),
          MkdirSync (path_dirname m (bundleOutput args)) mkdirOptions (Inl e),
          ServerEnd server c]"
  | (save_throws) server b d e c where
      "fst (buildBundleWithConfig m args cfg output s) =
         (case c of Inl e' \<Rightarrow> Inl e' | Inr _ \<Rightarrow> Inl e)"
      "emitted m args cfg output s =
         [EnvAssign ''NODE_ENV'' (buildMode args),
          NewServer cfg (Inr server),
          OutputBuild server (requestOpts m args) (Inr b),
          MkdirSync (path_dirname m (bundleOutput args)) mkdirOptions (Inr d),
          OutputSave b args (Inl e),
          ServerEnd server c]"
  | (getAssets_throws) server b d u e c where
      "fst (buildBundleWithConfig m args cfg output s) =
         (case c of Inl e' \<Rightarrow> Inl e' | Inr _ \<Rightarrow> Inl e)"
      "emitted m args cfg output s =
         [EnvAssign ''NODE_ENV'' (buildMode args),
          NewServer cfg (Inr server),
          OutputBuild server (requestOpts m args) (Inr b),
          MkdirSync (path_dirname m (bundleOutput args)) mkdirOptions (Inr d),
          OutputSave b args (Inr u),
          GetAssets server (assetOptions m (requestOpts m args)) (Inl e),
          ServerEnd server c]"
  | (saveAssets_throws) server b d u assets e c where
      "fst (buildBundleWithConfig m args cfg output s) =
         (case c of Inl e' \<Rightarrow> Inl e' | Inr _ \<Rightarrow> Inl e)"
      "emitted m args cfg output s =
         [EnvAssign ''NODE_ENV'' (buildMode args),
          NewServer cfg (Inr server),
          OutputBuild server (requestOpts m args) (Inr b),
          MkdirSync (path_dirname m (bundleOutput args)) mkdirOptions (Inr d),
          OutputSave b args (Inr u),
          GetAssets server (assetOptions m (requestOpts m args)) (Inr assets),
          SaveAssets assets (platform args) (assetsDest args) (assetCatalogDest args) (Inl e),
          ServerEnd server c]"
  | (completes) server b d u assets result c where
      "fst (buildBundleWithConfig m args cfg output s) =
         (case c of Inl e' \<Rightarrow> Inl e' | Inr _ \<Rightarrow> Inr result)"
      "emitted m args cfg output s =
         [EnvAssign ''NODE_ENV'' (buildMode args),
          NewServer cfg (Inr server),
          OutputBuild server (requestOpts m args) (Inr b),
          MkdirSync (path_dirname m (bundleOutput args)) mkdirOptions (Inr d),
          OutputSave b args (Inr u),
          GetAssets server (assetOptions m (requestOpts m args)) (Inr assets),
          SaveAssets assets (platform args) (assetsDest args) (assetCatalogDest args) (Inr result),
          ServerEnd server c]"
proof -
  obtain r0 w0 where n: "Server_new m cfg (world s) = (r0, w0)"
    by (metis surj_pair)
  show thesis
  proof (cases r0)
    case (Inl e)
    show thesis
      by (rule constructor_throws)
        (simp_all add: emitted_def buildBundleWithConfig_def andThen_def envAssign_def
          call_def n Inl valid indexOf_absent)
  next
    case (Inr server)
    let ?s1 = "s\<lparr>env := (env s)(''NODE_ENV'' \<mapsto> (buildMode args)),
                events := events s @
                  [EnvAssign ''NODE_ENV'' (buildMode args),
                   NewServer cfg (Inr server)],
                world := w0\<rparr>"
    let ?T = "tryBlock m args output (requestOpts m args) server ?s1"
    obtain c w where e: "Server_end m server (world (snd ?T)) = (c, w)"
      by (metis surj_pair)
    have run: "buildBundleWithConfig m args cfg output s =
        ((case c of Inl e' \<Rightarrow> Inl e' | Inr _ \<Rightarrow> fst ?T),
         (snd ?T)\<lparr>events := events (snd ?T) @ [ServerEnd server c], world := w\<rparr>)"
      using valid
      by (cases c)
        (simp_all add: buildBundleWithConfig_def andThen_def envAssign_def call_def
          tryFinally_def n Inr e indexOf_absent split_beta)
    show thesis
    proof (cases rule: tryBlock_cases [of m args "output" "requestOpts m args" server ?s1])
      case (in_build e)
      show thesis
        by (rule build_throws) (simp_all add: emitted_def run in_build cong: sum.case_cong)
    next
      case (in_mkdirSync b e)
      show thesis
        by (rule mkdirSync_throws) (simp_all add: emitted_def run in_mkdirSync cong: sum.case_cong)
    next
      case (in_save b d e)
      show thesis
        by (rule save_throws) (simp_all add: emitted_def run in_save cong: sum.case_cong)
    next
      case (in_getAssets b d u e)
      show thesis
        by (rule getAssets_throws) (simp_all add: emitted_def run in_getAssets cong: sum.case_cong)
    next
      case (in_saveAssets b d u assets e)
      show thesis
        by (rule saveAssets_throws) (simp_all add: emitted_def run in_saveAssets cong: sum.case_cong)
    next
      case (body_completes b d u assets result)
      show thesis
        by (rule completes) (simp_all add: emitted_def run body_completes cong: sum.case_cong)
    qed
  qed
qed


text \<open>
  A call only ever adds to the record, so the record after an invocation is the record
  before it followed by \<open>emitted\<close>.
\<close>

lemma andThen_prefix:
  assumes "\<And>t. prefix (events t) (events (snd (f t)))"
    and "\<And>x t. prefix (events t) (events (snd (g x t)))"
  shows "prefix (events s) (events (snd (andThen f g s)))"
proof (cases "f s")
  case (Pair r s')
  show ?thesis
  proof (cases r)
    case (Inl e)
    with Pair assms(1) [of s] show ?thesis by (simp add: andThen_def)
  next
    case (Inr x)
    have "prefix (events s) (events s')" using assms(1) [of s] Pair by simp
    also have "prefix (events s') (events (snd (g x s')))" by (rule assms(2))
    finally show ?thesis using Pair Inr by (simp add: andThen_def)
  qed
qed

lemma call_prefix: "prefix (events s) (events (snd (call ev f s)))"
  by (simp add: call_def split_beta)

lemma tryFinally_prefix:
  assumes "\<And>t. prefix (events t) (events (snd (body t)))"
    and "\<And>t. prefix (events t) (events (snd (cleanup t)))"
  shows "prefix (events s) (events (snd (tryFinally body cleanup s)))"
proof -
  have "prefix (events s) (events (snd (body s)))" by (rule assms(1))
  also have "prefix (events (snd (body s))) (events (snd (cleanup (snd (body s)))))"
    by (rule assms(2))
  finally show ?thesis
    by (simp add: tryFinally_def split_beta split: sum.splits)
qed

lemma tryBlock_prefix: "prefix (events s) (events (snd (tryBlock m args output ropts server s)))"
  unfolding tryBlock_def
  by (intro andThen_prefix call_prefix)

lemma buildBundleWithConfig_prefix:
  "prefix (events s) (events (snd (buildBundleWithConfig m args cfg output s)))"
proof -
  have 1: "prefix (events t) (events (snd (logger_error msg t)))" for msg and t :: "('a, 'b) process"
    by (simp add: logger_error_def)
  have 2: "prefix (events t) (events (snd (logger_info msg t)))" for msg and t :: "('a, 'b) process"
    by (simp add: logger_info_def)
  have 3: "prefix (events t) (events (snd (throw e t :: ('a thrown + 'a) \<times> ('a, 'b) process)))"
    for e and t :: "('a, 'b) process"
    by (simp add: throw_def)
  have 4: "prefix (events t) (events (snd (envAssign k v t)))" for k v and t :: "('a, 'b) process"
    by (simp add: envAssign_def)
  show ?thesis
    unfolding buildBundleWithConfig_def
    by (auto intro!: andThen_prefix tryFinally_prefix call_prefix tryBlock_prefix 1 2 3 4)
qed

lemma events_emitted:
  "events (snd (buildBundleWithConfig m args cfg output s)) =
     events s @ emitted m args cfg output s"
  using buildBundleWithConfig_prefix [of s m args cfg "output"]
  by (auto simp: emitted_def prefix_def)


text \<open>\<open>output.build\<close> is only ever called with \<open>requestOpts\<close>.\<close>

lemma build_event_opts:
  assumes "OutputBuild server ropts c \<in> set (emitted m args cfg output s)"
  shows "ropts = requestOpts m args"
proof (cases "platform args \<in> set (platforms (resolver cfg))")
  case True
  then show ?thesis
    using assms by (cases rule: valid_run_cases [of args cfg m "output" s]) auto
next
  case False
  then show ?thesis
    using assms by (simp add: emitted_def invalid_run)
qed

text \<open>Strings within strings, for the diagnostics.\<close>

lemma sublist_join:
  "x \<in> set xs \<Longrightarrow> sublist x (join sep xs)"
proof (induction sep xs rule: join.induct)
  case (1 sep)
  then show ?case by simp
next
  case (2 sep y)
  then show ?case by simp
next
  case (3 sep y z zs)
  show ?case
  proof (cases "x = y")
    case True
    then show ?thesis by simp
  next
    case False
    with 3 have "sublist x (join sep (z # zs))" by simp
    then have "sublist x ((y @ sep) @ join sep (z # zs))"
      by (metis sublist_append)
    then show ?thesis by simp
  qed
qed

lemma sublist_within:
  assumes "sublist xs ys" and "sublist ys zs"
  shows "sublist xs zs"
proof -
  from assms obtain a b c d where "ys = a @ xs @ b" and "zs = c @ ys @ d"
    by (auto simp: sublist_def)
  then have "zs = (c @ a) @ xs @ (b @ d)" by simp
  then show ?thesis unfolding sublist_def by blast
qed

lemma sublist_quoted:
  assumes "sublist x (bold x)"
  shows \<open>sublist x (''"'' @ bold x @ ''"'')\<close>
proof -
  have \<open>sublist (bold x) (''"'' @ bold x @ ''"'')\<close> by (rule sublist_appendI)
  with assms show ?thesis by (rule sublist_within)
qed

text \<open>The merged options, property by property.\<close>

lemma dom_properties:
  "dom (properties r :: 'v object) =
     {''entryFile'', ''sourceMapUrl'', ''dev'', ''minify'', ''platform'',
      ''unstable_transformProfile''}"
  by (auto simp: properties_def split: if_splits)

lemma assetOptions_lookup:
  "assetOptions m r k =
     (if k = ''bundleType'' then Some (JSString ''todo'')
      else case properties r k of
             Some v \<Rightarrow> Some v
           | None \<Rightarrow> Server_DEFAULT_BUNDLE_OPTIONS m k)"
  by (simp add: assetOptions_def map_add_def split: option.splits)

lemma assetOptions_merge:
  fixes m :: "('v, 'w) modules"
  shows "(\<forall>k \<in> dom (properties r :: 'v object). assetOptions m r k = properties r k)
       \<and> assetOptions m r ''bundleType'' = Some (JSString ''todo'')
       \<and> (\<forall>k. k \<notin> dom (properties r :: 'v object) \<and> k \<noteq> ''bundleType'' \<longrightarrow>
            assetOptions m r k = Server_DEFAULT_BUNDLE_OPTIONS m k)"
proof -
  have "''bundleType'' \<notin> dom (properties r :: 'v object)"
    by (simp add: dom_properties)
  then show ?thesis
    by (auto simp: assetOptions_lookup split: option.splits)
qed

subsection \<open>Invalid platform\<close>

text \<open>
  C2. When \<open>args.platform\<close> is not in \<open>config.resolver.platforms\<close>, the call fails
  with \<open>Error('Bundling failed')\<close>; the only things it does are the two log calls, so
  no \<open>Server\<close> is constructed and neither \<open>mkdirSync\<close>, \<open>output.save\<close>,
  \<open>getAssets\<close> nor \<open>saveAssets\<close> is called, and the collaborators' world is as it
  was.
\<close>

theorem invalid_platform_fails_before_any_call:
  assumes "platform args \<notin> set (platforms (resolver cfg))"
  shows "fst (buildBundleWithConfig m args cfg output s) = Inl (Error ''Bundling failed'')
       \<and> emitted m args cfg output s =
           [LoggerError (invalidPlatformMessage (chalk_bold m) (platform args)),
            LoggerInfo (availablePlatformsMessage (chalk_bold m) (platforms (resolver cfg)))]
       \<and> filter isCall (emitted m args cfg output s) = []
       \<and> world (snd (buildBundleWithConfig m args cfg output s)) = world s"
  using assms by (simp add: emitted_def invalid_run)

theorem invalid_platform_fails_before_any_call_witness:
  "platform windowsArgs \<notin> set (platforms (resolver exampleConfig))
   \<and> fst (buildBundleWithConfig exampleModules windowsArgs exampleConfig exampleOutput
            exampleProcess) = Inl (Error ''Bundling failed'')
   \<and> filter isCall (emitted exampleModules windowsArgs exampleConfig exampleOutput
            exampleProcess) = []
   \<and> world (snd (buildBundleWithConfig exampleModules windowsArgs exampleConfig exampleOutput
            exampleProcess)) = []"
proof -
  have h: "platform windowsArgs \<notin> set (platforms (resolver exampleConfig))"
    by (simp add: windowsArgs_def exampleArgs_def exampleConfig_def)
  show ?thesis
    using h invalid_platform_fails_before_any_call
      [OF h, of exampleModules exampleOutput exampleProcess]
    by (simp add: exampleProcess_def)
qed

text \<open>
  C10. When the platform is not in the list, \<open>process.env\<close> after the call is what it
  was before: the assignment to \<open>NODE_ENV\<close> is not reached.
\<close>

theorem invalid_platform_keeps_env:
  assumes "platform args \<notin> set (platforms (resolver cfg))"
  shows "env (snd (buildBundleWithConfig m args cfg output s)) = env s
       \<and> filter isEnvAssign (emitted m args cfg output s) = []"
  using assms by (simp add: emitted_def invalid_run)

theorem invalid_platform_keeps_env_witness:
  "platform windowsArgs \<notin> set (platforms (resolver exampleConfig))
   \<and> env (snd (buildBundleWithConfig exampleModules windowsArgs exampleConfig exampleOutput
            (exampleProcess\<lparr>env := [''NODE_ENV'' \<mapsto> ''test'']\<rparr>))) ''NODE_ENV'' = Some ''test''"
proof -
  have h: "platform windowsArgs \<notin> set (platforms (resolver exampleConfig))"
    by (simp add: windowsArgs_def exampleArgs_def exampleConfig_def)
  show ?thesis
    using h invalid_platform_keeps_env
      [OF h, of exampleModules exampleOutput "exampleProcess\<lparr>env := [''NODE_ENV'' \<mapsto> ''test'']\<rparr>"]
    by simp
qed

subsection \<open>Request options\<close>

text \<open>
  C3. \<open>requestOpts.minify\<close> is \<open>args.minify\<close> when that is defined and \<open>!args.dev\<close>
  when it is \<open>undefined\<close>; these are the options \<open>output.build\<close> is called with.
\<close>

theorem minify_defaults_to_not_dev:
  "minify' (requestOpts m args) = (case minify args of Some b \<Rightarrow> b | None \<Rightarrow> \<not> dev args)
   \<and> (\<forall>server ropts c. OutputBuild server ropts c \<in> set (emitted m args cfg output s) \<longrightarrow>
         minify' ropts = (case minify args of Some b \<Rightarrow> b | None \<Rightarrow> \<not> dev args))"
proof -
  have "minify' (requestOpts m args) = (case minify args of Some b \<Rightarrow> b | None \<Rightarrow> \<not> dev args)"
    by (simp add: requestOpts_def Let_def)
  then show ?thesis
    using build_event_opts by metis
qed

theorem minify_defaults_to_not_dev_witness:
  "OutputBuild 1 (requestOpts exampleModules exampleArgs) (Inr 2)
     \<in> set (emitted exampleModules exampleArgs exampleConfig exampleOutput exampleProcess)
   \<and> minify exampleArgs = None \<and> dev exampleArgs
   \<and> \<not> minify' (requestOpts exampleModules exampleArgs)"
proof -
  have h: "OutputBuild 1 (requestOpts exampleModules exampleArgs) (Inr 2)
     \<in> set (emitted exampleModules exampleArgs exampleConfig exampleOutput exampleProcess)"
    by (simp add: emitted_def buildBundleWithConfig_def tryBlock_def andThen_def
        tryFinally_def call_def envAssign_def exampleModules_def exampleOutput_def
        exampleConfig_def exampleArgs_def exampleProcess_def)
  have a: "minify exampleArgs = None \<and> dev exampleArgs"
    by (simp add: exampleArgs_def)
  show ?thesis
    using h a minify_defaults_to_not_dev
      [of exampleModules exampleArgs exampleConfig exampleOutput exampleProcess]
    by auto
qed

text \<open>
  C4. \<open>requestOpts.sourceMapUrl\<close> is \<open>undefined\<close> when \<open>args.sourcemapOutput\<close> is;
  otherwise it is \<open>args.sourcemapOutput\<close> itself when \<open>sourcemapUseAbsolutePath\<close> is
  set, and its basename when it is not. The code leaves an empty \<open>sourcemapOutput\<close> as
  it is (line 78 tests its truthiness), which is its basename too: \<open>path.basename('')\<close>
  is \<open>''\<close>, the one fact about \<open>path.basename\<close> that is used.
\<close>

theorem sourceMapUrl_is_basename_unless_absolute:
  assumes "path_basename m [] = []"
  shows "sourceMapUrl (requestOpts m args) =
           (case sourcemapOutput args of
              None \<Rightarrow> None
            | Some p \<Rightarrow> Some (if sourcemapUseAbsolutePath args then p else path_basename m p))
       \<and> (\<forall>server ropts c. OutputBuild server ropts c \<in> set (emitted m args cfg output s) \<longrightarrow>
            sourceMapUrl ropts =
              (case sourcemapOutput args of
                 None \<Rightarrow> None
               | Some p \<Rightarrow> Some (if sourcemapUseAbsolutePath args then p else path_basename m p)))"
proof -
  have "sourceMapUrl (requestOpts m args) =
           (case sourcemapOutput args of
              None \<Rightarrow> None
            | Some p \<Rightarrow> Some (if sourcemapUseAbsolutePath args then p else path_basename m p))"
    using assms by (simp add: requestOpts_def Let_def split: option.splits)
  then show ?thesis
    using build_event_opts by metis
qed

theorem sourceMapUrl_is_basename_unless_absolute_witness:
  "path_basename exampleModules [] = []
   \<and> OutputBuild 1 (requestOpts exampleModules exampleArgs) (Inr 2)
       \<in> set (emitted exampleModules exampleArgs exampleConfig exampleOutput exampleProcess)
   \<and> sourceMapUrl (requestOpts exampleModules exampleArgs) = Some ''bundle.map''
   \<and> sourceMapUrl (requestOpts exampleModules (exampleArgs\<lparr>sourcemapUseAbsolutePath := True\<rparr>))
       = Some ''/abs/out/bundle.map''
   \<and> sourceMapUrl (requestOpts exampleModules (exampleArgs\<lparr>sourcemapOutput := None\<rparr>)) = None"
proof -
  have b: "path_basename exampleModules [] = []"
    by (simp add: exampleModules_def lastSegment_def)
  have h: "OutputBuild 1 (requestOpts exampleModules exampleArgs) (Inr 2)
     \<in> set (emitted exampleModules exampleArgs exampleConfig exampleOutput exampleProcess)"
    by (simp add: emitted_def buildBundleWithConfig_def tryBlock_def andThen_def
        tryFinally_def call_def envAssign_def exampleModules_def exampleOutput_def
        exampleConfig_def exampleArgs_def exampleProcess_def)
  have p: "path_basename exampleModules ''/abs/out/bundle.map'' = ''bundle.map''"
    by (simp add: exampleModules_def lastSegment_def)
  show ?thesis
    using b h p
      sourceMapUrl_is_basename_unless_absolute
        [OF b, of exampleArgs exampleConfig exampleOutput exampleProcess]
      sourceMapUrl_is_basename_unless_absolute
        [OF b, of "exampleArgs\<lparr>sourcemapUseAbsolutePath := True\<rparr>" exampleConfig exampleOutput exampleProcess]
      sourceMapUrl_is_basename_unless_absolute
        [OF b, of "exampleArgs\<lparr>sourcemapOutput := None\<rparr>" exampleConfig exampleOutput exampleProcess]
    by (simp add: exampleArgs_def)
qed

subsection \<open>The build mode\<close>



subsection \<open>The result\<close>

text \<open>
  C9. The call returns a value exactly when every step has returned: the constructor,
  \<open>output.build\<close>, \<open>fs.mkdirSync\<close>, \<open>output.save\<close>, \<open>server.getAssets\<close>,
  \<open>saveAssets\<close> and \<open>server.end\<close>. The value it returns is then the one that
  \<open>saveAssets\<close> returned, called on the asset list that \<open>getAssets\<close> returned, with
  \<open>args.platform\<close>, \<open>args.assetsDest\<close> and \<open>args.assetCatalogDest\<close>.
\<close>

theorem returns_what_saveAssets_returned:
  "fst (buildBundleWithConfig m args cfg output s) = Inr v \<longleftrightarrow>
     (\<exists>server b d u assets c. emitted m args cfg output s =
        [EnvAssign ''NODE_ENV'' (if dev args then ''development'' else ''production''),
         NewServer cfg (Inr server),
         OutputBuild server (requestOpts m args) (Inr b),
         MkdirSync (path_dirname m (bundleOutput args)) mkdirOptions (Inr d),
         OutputSave b args (Inr u),
         GetAssets server (assetOptions m (requestOpts m args)) (Inr assets),
         SaveAssets assets (platform args) (assetsDest args) (assetCatalogDest args) (Inr v),
         ServerEnd server (Inr c)])"
proof (cases "platform args \<in> set (platforms (resolver cfg))")
  case True
  then show ?thesis
  proof (cases rule: valid_run_cases [of args cfg m "output" s])
    case (completes server b d u assets result c)
    show ?thesis
    proof (cases c)
      case (Inl e)
      with completes show ?thesis by simp
    next
      case (Inr x)
      with completes show ?thesis by (auto simp: buildMode_def)
    qed
  qed (auto split: sum.splits)
next
  case False
  then show ?thesis
    by (simp add: emitted_def invalid_run)
qed

theorem returns_what_saveAssets_returned_witness:
  "fst (buildBundleWithConfig exampleModules exampleArgs exampleConfig exampleOutput
          exampleProcess) = Inr 4
   \<and> (\<exists>server b d u assets c.
         emitted exampleModules exampleArgs exampleConfig exampleOutput exampleProcess =
           [EnvAssign ''NODE_ENV'' (if dev exampleArgs then ''development'' else ''production''),
            NewServer exampleConfig (Inr server),
            OutputBuild server (requestOpts exampleModules exampleArgs) (Inr b),
            MkdirSync (path_dirname exampleModules (bundleOutput exampleArgs)) mkdirOptions (Inr d),
            OutputSave b exampleArgs (Inr u),
            GetAssets server (assetOptions exampleModules (requestOpts exampleModules exampleArgs))
              (Inr assets),
            SaveAssets assets (platform exampleArgs) (assetsDest exampleArgs)
              (assetCatalogDest exampleArgs) (Inr 4),
            ServerEnd server (Inr c)])"
proof -
  have h: "fst (buildBundleWithConfig exampleModules exampleArgs exampleConfig exampleOutput
          exampleProcess) = Inr 4"
    by (simp add: buildBundleWithConfig_def tryBlock_def andThen_def
        tryFinally_def call_def envAssign_def exampleModules_def exampleOutput_def
        exampleConfig_def exampleArgs_def exampleProcess_def)
  show ?thesis
    using h returns_what_saveAssets_returned
      [of exampleModules exampleArgs exampleConfig exampleOutput exampleProcess 4]
    by (simp only: simp_thms)
qed

subsection \<open>The session is closed exactly once\<close>

text \<open>
  C1, as the code has it. The error of a step does not reach the caller on every path:
  \<open>server.end()\<close> is called in the \<open>finally\<close> block with nothing around it, so
  when it throws, what it throws replaces the error of the step. Here \<open>output.save\<close>
  throws \<open>EACCES\<close>, \<open>server.end()\<close> is called once and throws, and the caller gets
  the error of \<open>server.end()\<close>.
\<close>

theorem step_error_replaced_when_end_throws:
  "platform exampleArgs \<in> set (platforms (resolver exampleConfig))
   \<and> emitted endThrows exampleArgs exampleConfig saveThrows exampleProcess =
       [EnvAssign ''NODE_ENV'' ''development'',
        NewServer exampleConfig (Inr 1),
        OutputBuild 1 (requestOpts endThrows exampleArgs) (Inr 2),
        MkdirSync ''/abs/out'' mkdirOptions (Inr 0),
        OutputSave 2 exampleArgs (Inl (Error ''EACCES'')),
        ServerEnd 1 (Inl (Error ''end failed''))]
   \<and> fst (buildBundleWithConfig endThrows exampleArgs exampleConfig saveThrows exampleProcess)
       = Inl (Error ''end failed'')
   \<and> fst (buildBundleWithConfig endThrows exampleArgs exampleConfig saveThrows exampleProcess)
       \<noteq> Inl (Error ''EACCES'')"
  by (simp add: emitted_def buildBundleWithConfig_def tryBlock_def andThen_def
      tryFinally_def call_def envAssign_def buildMode_def endThrows_def exampleModules_def
      saveThrows_def exampleConfig_def exampleArgs_def exampleProcess_def parentPath_def)

text \<open>
  C1, amended. When the platform is in the list and \<open>new Server(config)\<close> has
  returned the session, \<open>server.end()\<close> is called on that session exactly once, and
  it is the last thing the call does, on every path. If \<open>output.build\<close>,
  \<open>fs.mkdirSync\<close>, \<open>output.save\<close>, \<open>server.getAssets\<close> or \<open>saveAssets\<close>
  threw \<open>e\<close>, the call throws \<open>e\<close> after \<open>server.end()\<close> has returned; if
  \<open>server.end()\<close> throws itself, the call throws what \<open>server.end()\<close> threw.
\<close>

theorem session_closed_exactly_once:
  assumes "platform args \<in> set (platforms (resolver cfg))"
    and "NewServer cfg (Inr server) \<in> set (emitted m args cfg output s)"
  shows "length (filter isServerEnd (emitted m args cfg output s)) = 1
       \<and> (\<exists>c. last (emitted m args cfg output s) = ServerEnd server c
            \<and> (\<forall>ev \<in> set (emitted m args cfg output s). \<forall>e. thrownBy ev = Some e \<longrightarrow>
                 fst (buildBundleWithConfig m args cfg output s) =
                   (case c of Inl e' \<Rightarrow> Inl e' | Inr _ \<Rightarrow> Inl e)))"
  using assms
  by (cases rule: valid_run_cases [of args cfg m "output" s]) auto

theorem session_closed_exactly_once_witness:
  "platform exampleArgs \<in> set (platforms (resolver exampleConfig))
   \<and> NewServer exampleConfig (Inr 1)
       \<in> set (emitted exampleModules exampleArgs exampleConfig saveThrows exampleProcess)
   \<and> thrownBy (OutputSave 2 exampleArgs (Inl (Error ''EACCES''))) = Some (Error ''EACCES'')
   \<and> OutputSave 2 exampleArgs (Inl (Error ''EACCES''))
       \<in> set (emitted exampleModules exampleArgs exampleConfig saveThrows exampleProcess)
   \<and> length (filter isServerEnd
       (emitted exampleModules exampleArgs exampleConfig saveThrows exampleProcess)) = 1
   \<and> last (emitted exampleModules exampleArgs exampleConfig saveThrows exampleProcess)
       = ServerEnd 1 (Inr 0)
   \<and> fst (buildBundleWithConfig exampleModules exampleArgs exampleConfig saveThrows
            exampleProcess) = Inl (Error ''EACCES'')"
proof -
  have v: "platform exampleArgs \<in> set (platforms (resolver exampleConfig))"
    by (simp add: exampleArgs_def exampleConfig_def)
  have e: "emitted exampleModules exampleArgs exampleConfig saveThrows exampleProcess =
     [EnvAssign ''NODE_ENV'' ''development'', NewServer exampleConfig (Inr 1),
      OutputBuild 1 (requestOpts exampleModules exampleArgs) (Inr 2),
      MkdirSync ''/abs/out'' mkdirOptions (Inr 0),
      OutputSave 2 exampleArgs (Inl (Error ''EACCES'')),
      ServerEnd 1 (Inr 0)]"
    by (simp add: emitted_def buildBundleWithConfig_def tryBlock_def andThen_def
        tryFinally_def call_def envAssign_def buildMode_def exampleModules_def saveThrows_def
        exampleConfig_def exampleArgs_def exampleProcess_def parentPath_def)
  have n: "NewServer exampleConfig (Inr 1)
       \<in> set (emitted exampleModules exampleArgs exampleConfig saveThrows exampleProcess)"
    by (simp add: e)
  show ?thesis
    using v n session_closed_exactly_once [OF v n]
    by (auto simp: e)
qed

subsection \<open>The diagnostics of an invalid platform\<close>

text \<open>
  C8. When the platform is not in the list, the call logs an error and then an info
  message, and then throws. The error message contains the platform string and the info
  message contains every platform of the list. Both are shown between double quotes and
  through \<open>chalk.bold\<close>, which is taken to keep the text of these strings; the info message
  contains the whole list so displayed, joined by \<open>', '\<close>. (An empty platform string
  is falsy at line 58: the error message is then \<open>Invalid platform selected.\<close>, with
  nothing between \<open>platform\<close> and \<open>selected\<close>.)
\<close>

theorem invalid_platform_diagnostics:
  assumes \<open>platform args \<notin> set (platforms (resolver cfg))\<close>
    and \<open>\<forall>x \<in> insert (platform args) (set (platforms (resolver cfg))).
           sublist x (chalk_bold m x)\<close>
  shows \<open>\<exists>err info.
           emitted m args cfg output s = [LoggerError err, LoggerInfo info]
         \<and> fst (buildBundleWithConfig m args cfg output s) = Inl (Error ''Bundling failed'')
         \<and> sublist (platform args) err
         \<and> (platform args \<noteq> [] \<longrightarrow> sublist (''"'' @ chalk_bold m (platform args) @ ''"'') err)
         \<and> (\<forall>p \<in> set (platforms (resolver cfg)). sublist p info)
         \<and> sublist (join '', '' (map (\<lambda>x. ''"'' @ chalk_bold m x @ ''"'') (platforms (resolver cfg))))
              info\<close>
proof -
  let ?err = "invalidPlatformMessage (chalk_bold m) (platform args)"
  let ?info = "availablePlatformsMessage (chalk_bold m) (platforms (resolver cfg))"
  let ?shown = \<open>\<lambda>x. ''"'' @ chalk_bold m x @ ''"''\<close>
  have run: "emitted m args cfg output s = [LoggerError ?err, LoggerInfo ?info]"
    "fst (buildBundleWithConfig m args cfg output s) = Inl (Error ''Bundling failed'')"
    using assms(1) by (simp_all add: emitted_def invalid_run)
  have shown: \<open>platform args \<noteq> [] \<longrightarrow> sublist (?shown (platform args)) ?err\<close>
  proof
    assume "platform args \<noteq> []"
    then have \<open>?err = ''Invalid platform '' @ ?shown (platform args) @ '' selected.''\<close>
      by (simp add: invalidPlatformMessage_def)
    then show "sublist (?shown (platform args)) ?err"
      by (simp only: sublist_appendI)
  qed
  have raw: "sublist (platform args) ?err"
  proof (cases "platform args = []")
    case True
    then show ?thesis by simp
  next
    case False
    have "sublist (platform args) (?shown (platform args))"
      using assms(2) by (intro sublist_quoted) simp
    moreover have "sublist (?shown (platform args)) ?err"
      using False shown by simp
    ultimately show ?thesis by (rule sublist_within)
  qed
  have list: "sublist (join '', '' (map ?shown (platforms (resolver cfg)))) ?info"
    unfolding availablePlatformsMessage_def by (rule sublist_appendI)
  have each: "sublist p ?info" if "p \<in> set (platforms (resolver cfg))" for p
  proof -
    have "sublist p (?shown p)"
      using assms(2) that by (intro sublist_quoted) simp
    moreover have "sublist (?shown p) (join '', '' (map ?shown (platforms (resolver cfg))))"
      using that by (intro sublist_join) simp
    ultimately have "sublist p (join '', '' (map ?shown (platforms (resolver cfg))))"
      by (rule sublist_within)
    then show ?thesis using list by (rule sublist_within)
  qed
  from run shown raw list each show ?thesis by blast
qed

theorem invalid_platform_diagnostics_witness:
  \<open>platform windowsArgs \<notin> set (platforms (resolver exampleConfig))
   \<and> sublist ''windows'' (chalk_bold exampleModules ''windows'')
   \<and> sublist ''ios'' (chalk_bold exampleModules ''ios'')
   \<and> sublist ''android'' (chalk_bold exampleModules ''android'')
   \<and> emitted exampleModules windowsArgs exampleConfig exampleOutput exampleProcess =
       [LoggerError ''Invalid platform "windows" selected.'',
        LoggerInfo (''Available platforms are: "ios", "android". If you are trying to bundle ''
          @ ''for an out-of-tree platform, it may not be installed.'')]
   \<and> (\<exists>err info.
         emitted exampleModules windowsArgs exampleConfig exampleOutput exampleProcess =
           [LoggerError err, LoggerInfo info]
       \<and> sublist ''windows'' err \<and> sublist ''ios'' info \<and> sublist ''android'' info)\<close>
proof -
  have h: "platform windowsArgs \<notin> set (platforms (resolver exampleConfig))"
    by (simp add: windowsArgs_def exampleArgs_def exampleConfig_def)
  have b: "\<forall>x \<in> insert (platform windowsArgs) (set (platforms (resolver exampleConfig))).
         sublist x (chalk_bold exampleModules x)"
    by (simp add: exampleModules_def)
  have e: \<open>emitted exampleModules windowsArgs exampleConfig exampleOutput exampleProcess =
       [LoggerError ''Invalid platform "windows" selected.'',
        LoggerInfo (''Available platforms are: "ios", "android". If you are trying to bundle ''
          @ ''for an out-of-tree platform, it may not be installed.'')]\<close>
    by (simp add: emitted_def buildBundleWithConfig_def andThen_def logger_error_def
        logger_info_def throw_def invalidPlatformMessage_def availablePlatformsMessage_def
        exampleModules_def windowsArgs_def exampleConfig_def exampleArgs_def exampleProcess_def)
  have p: "platform windowsArgs = ''windows''" "platforms (resolver exampleConfig) = [''ios'', ''android'']"
    by (simp_all add: windowsArgs_def exampleArgs_def exampleConfig_def)
  show ?thesis
    using h b e
      invalid_platform_diagnostics [OF h b, of exampleOutput exampleProcess]
    by (auto simp: p)
qed

subsection \<open>The output directory\<close>

text \<open>
  C5, as the code has it. The directory is not created in every run that passes
  validation: when \<open>output.build\<close> throws, \<open>fs.mkdirSync\<close> is not reached.
\<close>

theorem no_mkdirSync_when_build_throws:
  "platform exampleArgs \<in> set (platforms (resolver exampleConfig))
   \<and> emitted exampleModules exampleArgs exampleConfig buildThrows exampleProcess =
       [EnvAssign ''NODE_ENV'' ''development'',
        NewServer exampleConfig (Inr 1),
        OutputBuild 1 (requestOpts exampleModules exampleArgs)
          (Inl (Error ''Unable to resolve module'')),
        ServerEnd 1 (Inr 0)]
   \<and> filter isMkdirSync
         (emitted exampleModules exampleArgs exampleConfig buildThrows exampleProcess) = []"
  by (simp add: emitted_def buildBundleWithConfig_def tryBlock_def andThen_def
      tryFinally_def call_def envAssign_def buildMode_def exampleModules_def buildThrows_def
      exampleConfig_def exampleArgs_def exampleProcess_def)

text \<open>
  C5, amended. When the platform is in the list and \<open>output.build\<close> has returned the
  bundle, the next call is \<open>fs.mkdirSync\<close> on \<open>path.dirname(args.bundleOutput)\<close>
  with \<open>{recursive: true, mode: 0o755}\<close>. \<open>output.save\<close> is not called before it;
  it is the call after it when \<open>mkdirSync\<close> returns, and is not called at all when
  \<open>mkdirSync\<close> throws.
\<close>

theorem mkdirSync_after_build_and_before_save:
  assumes "platform args \<in> set (platforms (resolver cfg))"
    and "OutputBuild server ropts (Inr b) \<in> set (emitted m args cfg output s)"
  shows "\<exists>pre d rest. emitted m args cfg output s =
           pre @ OutputBuild server ropts (Inr b)
             # MkdirSync (path_dirname m (bundleOutput args))
                 \<lparr>recursive = True, mode = 7 * 64 + 5 * 8 + 5\<rparr> d
             # rest
         \<and> filter isOutputSave pre = []
         \<and> (case d of
               Inl e \<Rightarrow> filter isOutputSave rest = []
             | Inr _ \<Rightarrow> (\<exists>c rest'. rest = OutputSave b args c # rest'))"
  using assms
proof (cases rule: valid_run_cases [of args cfg m "output" s])
  case (constructor_throws e)
  with assms(2) show ?thesis by simp
next
  case (build_throws server' e c)
  with assms(2) show ?thesis by simp
next
  case (mkdirSync_throws server' b' e c)
  with assms(2) have "server' = server" "ropts = requestOpts m args" "b' = b" by auto
  with mkdirSync_throws(2) show ?thesis
    by - (rule exI [of _ "[EnvAssign ''NODE_ENV'' (buildMode args), NewServer cfg (Inr server)]"],
        rule exI [of _ "Inl e"],
        rule exI [of _ "[ServerEnd server c]"],
        simp add: mkdirOptions_def)
next
  case (save_throws server' b' d e c)
  with assms(2) have "server' = server" "ropts = requestOpts m args" "b' = b" by auto
  with save_throws(2) show ?thesis
    by - (rule exI [of _ "[EnvAssign ''NODE_ENV'' (buildMode args), NewServer cfg (Inr server)]"],
        rule exI [of _ "Inr d"],
        rule exI [of _ "[OutputSave b args (Inl e), ServerEnd server c]"],
        simp add: mkdirOptions_def)
next
  case (getAssets_throws server' b' d u e c)
  with assms(2) have "server' = server" "ropts = requestOpts m args" "b' = b" by auto
  with getAssets_throws(2) show ?thesis
    by - (rule exI [of _ "[EnvAssign ''NODE_ENV'' (buildMode args), NewServer cfg (Inr server)]"],
        rule exI [of _ "Inr d"],
        rule exI [of _ "[OutputSave b args (Inr u), GetAssets server (assetOptions m (requestOpts m args)) (Inl e), ServerEnd server c]"],
        simp add: mkdirOptions_def)
next
  case (saveAssets_throws server' b' d u assets e c)
  with assms(2) have "server' = server" "ropts = requestOpts m args" "b' = b" by auto
  with saveAssets_throws(2) show ?thesis
    by - (rule exI [of _ "[EnvAssign ''NODE_ENV'' (buildMode args), NewServer cfg (Inr server)]"],
        rule exI [of _ "Inr d"],
        rule exI [of _ "[OutputSave b args (Inr u),
          GetAssets server (assetOptions m (requestOpts m args)) (Inr assets),
          SaveAssets assets (platform args) (assetsDest args) (assetCatalogDest args) (Inl e),
          ServerEnd server c]"],
        simp add: mkdirOptions_def)
next
  case (completes server' b' d u assets result c)
  with assms(2) have "server' = server" "ropts = requestOpts m args" "b' = b" by auto
  with completes(2) show ?thesis
    by - (rule exI [of _ "[EnvAssign ''NODE_ENV'' (buildMode args), NewServer cfg (Inr server)]"],
        rule exI [of _ "Inr d"],
        rule exI [of _ "[OutputSave b args (Inr u),
          GetAssets server (assetOptions m (requestOpts m args)) (Inr assets),
          SaveAssets assets (platform args) (assetsDest args) (assetCatalogDest args) (Inr result),
          ServerEnd server c]"],
        simp add: mkdirOptions_def)
qed

theorem mkdirSync_after_build_and_before_save_witness:
  "platform exampleArgs \<in> set (platforms (resolver exampleConfig))
   \<and> OutputBuild 1 (requestOpts exampleModules exampleArgs) (Inr 2)
       \<in> set (emitted exampleModules exampleArgs exampleConfig exampleOutput exampleProcess)
   \<and> path_dirname exampleModules (bundleOutput exampleArgs) = ''/abs/out''
   \<and> (\<exists>pre d rest.
         emitted exampleModules exampleArgs exampleConfig exampleOutput exampleProcess =
           pre @ OutputBuild 1 (requestOpts exampleModules exampleArgs) (Inr 2)
             # MkdirSync ''/abs/out'' \<lparr>recursive = True, mode = 493\<rparr> d
             # rest
         \<and> filter isOutputSave pre = [])"
proof -
  have v: "platform exampleArgs \<in> set (platforms (resolver exampleConfig))"
    by (simp add: exampleArgs_def exampleConfig_def)
  have h: "OutputBuild 1 (requestOpts exampleModules exampleArgs) (Inr 2)
     \<in> set (emitted exampleModules exampleArgs exampleConfig exampleOutput exampleProcess)"
    by (simp add: emitted_def buildBundleWithConfig_def tryBlock_def andThen_def
        tryFinally_def call_def envAssign_def exampleModules_def exampleOutput_def
        exampleConfig_def exampleArgs_def exampleProcess_def)
  have d: "path_dirname exampleModules (bundleOutput exampleArgs) = ''/abs/out''"
    by (simp add: exampleModules_def exampleArgs_def parentPath_def)
  show ?thesis
    using v h d mkdirSync_after_build_and_before_save [OF v h]
    by auto
qed

subsection \<open>The asset request\<close>

text \<open>
  C7, as the code has it. The asset list is not requested in every run that passes
  validation: when \<open>output.save\<close> throws, \<open>server.getAssets\<close> is not reached.
\<close>

theorem no_getAssets_when_save_throws:
  "platform exampleArgs \<in> set (platforms (resolver exampleConfig))
   \<and> emitted exampleModules exampleArgs exampleConfig saveThrows exampleProcess =
       [EnvAssign ''NODE_ENV'' ''development'',
        NewServer exampleConfig (Inr 1),
        OutputBuild 1 (requestOpts exampleModules exampleArgs) (Inr 2),
        MkdirSync ''/abs/out'' mkdirOptions (Inr 0),
        OutputSave 2 exampleArgs (Inl (Error ''EACCES'')),
        ServerEnd 1 (Inr 0)]
   \<and> filter isGetAssets
         (emitted exampleModules exampleArgs exampleConfig saveThrows exampleProcess) = []"
  by (simp add: emitted_def buildBundleWithConfig_def tryBlock_def andThen_def
      tryFinally_def call_def envAssign_def buildMode_def exampleModules_def saveThrows_def
      exampleConfig_def exampleArgs_def exampleProcess_def parentPath_def)

text \<open>
  C7, amended. When the platform is in the list and \<open>output.save\<close> has returned, the
  next call is \<open>getAssets\<close> on the session that \<open>new Server(config)\<close> returned, with
  the object \<open>{...Server.DEFAULT_BUNDLE_OPTIONS, ...requestOpts, bundleType: 'todo'}\<close>:
  each of the six properties of \<open>requestOpts\<close> has the value \<open>requestOpts\<close> gives it,
  \<open>bundleType\<close> is \<open>'todo'\<close>, and every other property is as in the defaults.
\<close>

theorem getAssets_options_merge_defaults_and_request:
  fixes m :: "('v, 'w) modules"
  assumes "platform args \<in> set (platforms (resolver cfg))"
    and "OutputSave b a (Inr u) \<in> set (emitted m args cfg output s)"
  shows "\<exists>pre server opts c rest.
           emitted m args cfg output s =
             pre @ OutputSave b a (Inr u) # GetAssets server opts c # rest
         \<and> NewServer cfg (Inr server) \<in> set pre
         \<and> opts = Server_DEFAULT_BUNDLE_OPTIONS m ++ properties (requestOpts m args)
                    ++ [''bundleType'' \<mapsto> JSString ''todo'']
         \<and> (\<forall>k \<in> dom (properties (requestOpts m args) :: 'v object).
               opts k = properties (requestOpts m args) k)
         \<and> dom (properties (requestOpts m args) :: 'v object) =
               {''entryFile'', ''sourceMapUrl'', ''dev'', ''minify'', ''platform'',
                ''unstable_transformProfile''}
         \<and> opts ''bundleType'' = Some (JSString ''todo'')
         \<and> (\<forall>k. k \<notin> dom (properties (requestOpts m args) :: 'v object) \<and> k \<noteq> ''bundleType'' \<longrightarrow>
               opts k = Server_DEFAULT_BUNDLE_OPTIONS m k)"
proof -
  let ?opts = "assetOptions m (requestOpts m args)"
  let ?pre = "\<lambda>server bundle d.
     [EnvAssign ''NODE_ENV'' (buildMode args), NewServer cfg (Inr server),
      OutputBuild server (requestOpts m args) (Inr bundle),
      MkdirSync (path_dirname m (bundleOutput args)) mkdirOptions (Inr d)]"
  have shape: "\<exists>server bundle d c rest. emitted m args cfg output s =
      ?pre server bundle d @ OutputSave b a (Inr u) # GetAssets server ?opts c # rest"
    using assms
  proof (cases rule: valid_run_cases [of args cfg m "output" s])
    case (getAssets_throws server b' d u' e c)
    with assms(2) have "b' = b" "a = args" "u' = u" by auto
    with getAssets_throws(2) show ?thesis by simp
  next
    case (saveAssets_throws server b' d u' assets e c)
    with assms(2) have "b' = b" "a = args" "u' = u" by auto
    with saveAssets_throws(2) show ?thesis by simp
  next
    case (completes server b' d u' assets result c)
    with assms(2) have "b' = b" "a = args" "u' = u" by auto
    with completes(2) show ?thesis by simp
  qed auto
  then obtain server b0 d c rest where
    e: "emitted m args cfg output s =
      ?pre server b0 d @ OutputSave b a (Inr u) # GetAssets server ?opts c # rest"
    by blast
  have n: "NewServer cfg (Inr server) \<in> set (?pre server b0 d)" by simp
  have o: "?opts = Server_DEFAULT_BUNDLE_OPTIONS m ++ properties (requestOpts m args)
                    ++ [''bundleType'' \<mapsto> JSString ''todo'']"
    by (simp add: assetOptions_def)
  from e n o assetOptions_merge [of "requestOpts m args" m] dom_properties [of "requestOpts m args"]
  show ?thesis
    by - (rule exI [of _ "?pre server b0 d"], rule exI [of _ server],
        rule exI [of _ ?opts], rule exI [of _ c], rule exI [of _ rest],
        blast)
qed

theorem getAssets_options_merge_defaults_and_request_witness:
  "platform exampleArgs \<in> set (platforms (resolver exampleConfig))
   \<and> OutputSave 2 exampleArgs (Inr 0)
       \<in> set (emitted exampleModules exampleArgs exampleConfig exampleOutput exampleProcess)
   \<and> (\<exists>pre server opts c rest.
         emitted exampleModules exampleArgs exampleConfig exampleOutput exampleProcess =
           pre @ OutputSave 2 exampleArgs (Inr 0) # GetAssets server opts c # rest
       \<and> NewServer exampleConfig (Inr server) \<in> set pre
       \<and> opts = Server_DEFAULT_BUNDLE_OPTIONS exampleModules
                  ++ properties (requestOpts exampleModules exampleArgs)
                  ++ [''bundleType'' \<mapsto> JSString ''todo''])
   \<and> Server_DEFAULT_BUNDLE_OPTIONS exampleModules ''sourceMapUrl'' = Some (JSOther 0)
   \<and> (Server_DEFAULT_BUNDLE_OPTIONS exampleModules
        ++ properties (requestOpts exampleModules exampleArgs)
        ++ [''bundleType'' \<mapsto> JSString ''todo'']) ''sourceMapUrl''
       = Some (JSString ''bundle.map'')
   \<and> (Server_DEFAULT_BUNDLE_OPTIONS exampleModules
        ++ properties (requestOpts exampleModules exampleArgs)
        ++ [''bundleType'' \<mapsto> JSString ''todo'']) ''runModule''
       = Some (JSBoolean True)"
proof -
  have v: "platform exampleArgs \<in> set (platforms (resolver exampleConfig))"
    by (simp add: exampleArgs_def exampleConfig_def)
  have h: "OutputSave 2 exampleArgs (Inr 0)
     \<in> set (emitted exampleModules exampleArgs exampleConfig exampleOutput exampleProcess)"
    by (simp add: emitted_def buildBundleWithConfig_def tryBlock_def andThen_def
        tryFinally_def call_def envAssign_def exampleModules_def exampleOutput_def
        exampleConfig_def exampleArgs_def exampleProcess_def)
  have "\<exists>pre server opts c rest.
         emitted exampleModules exampleArgs exampleConfig exampleOutput exampleProcess =
           pre @ OutputSave 2 exampleArgs (Inr 0) # GetAssets server opts c # rest
       \<and> NewServer exampleConfig (Inr server) \<in> set pre
       \<and> opts = Server_DEFAULT_BUNDLE_OPTIONS exampleModules
                  ++ properties (requestOpts exampleModules exampleArgs)
                  ++ [''bundleType'' \<mapsto> JSString ''todo'']"
    using getAssets_options_merge_defaults_and_request [OF v h]
    by (elim exE conjE) (intro exI conjI)
  moreover have
    "Server_DEFAULT_BUNDLE_OPTIONS exampleModules ''sourceMapUrl'' = Some (JSOther 0)"
    "(Server_DEFAULT_BUNDLE_OPTIONS exampleModules
        ++ properties (requestOpts exampleModules exampleArgs)
        ++ [''bundleType'' \<mapsto> JSString ''todo'']) ''sourceMapUrl''
       = Some (JSString ''bundle.map'')"
    "(Server_DEFAULT_BUNDLE_OPTIONS exampleModules
        ++ properties (requestOpts exampleModules exampleArgs)
        ++ [''bundleType'' \<mapsto> JSString ''todo'']) ''runModule''
       = Some (JSBoolean True)"
    by (simp_all add: properties_def requestOpts_def optionalString_def exampleModules_def
        exampleArgs_def lastSegment_def)
  ultimately show ?thesis
    using v h by (intro conjI)
qed

end
